theory Spec2Isabelle
  imports Main
begin

section \<open>Values, identities and errors\<close>

text \<open>
  The entity base class \<open>Model\<close> stores attribute values of type \<open>any\<close>. The values
  the operations below distinguish are the JavaScript primitives and date objects
  (a date object carries its time value in milliseconds).
\<close>

datatype jsvalue = Undefined | Null | Bool bool | Num int | Str string | DateObj int

text \<open>
  \<open>private id: string | undefined\<close>; the getter \<open>hasId\<close> also tests for \<open>null\<close>, so
  the identity has three shapes.
\<close>

datatype api_id = IdUndefined | IdNull | IdString string

text \<open>Every \<open>throw\<close> of the source, and the rejection of a transport promise.\<close>

datatype error =
    MissingJsonApiBaseUrl
  | MissingJsonApiType
  | CannotCastToDate
  | CannotDeleteWithoutId
  | TypeError
  | TransportError nat

section \<open>Static configuration of an entity class\<close>

text \<open>
  The static properties of a concrete entity class. \<open>effectiveJsonApiBaseUrl_memo\<close> and
  \<open>effectiveJsonApiType_memo\<close> are the private statics \<open>_effectiveJsonApiBaseUrl\<close> and
  \<open>_effectiveJsonApiType\<close>; \<open>None\<close> is \<open>undefined\<close>.
\<close>

record statics =
  jsonApiBaseUrl :: "string option"
  effectiveJsonApiBaseUrl_memo :: "string option"
  jsonApiType :: "string option"
  effectiveJsonApiType_memo :: "string option"
  endpoint :: "string option"
  readOnlyAttributes :: "string list"
  dates :: "(string \<times> string) list"

text \<open>\<open>s.replace(/^\/+/, '')\<close> and \<open>s.replace(/\/+$/, '')\<close>.\<close>

definition strip_leading_slashes :: "string \<Rightarrow> string" where
  "strip_leading_slashes s = dropWhile (\<lambda>c. c = CHR ''/'') s"

definition strip_trailing_slashes :: "string \<Rightarrow> string" where
  "strip_trailing_slashes s = rev (dropWhile (\<lambda>c. c = CHR ''/'') (rev s))"

text \<open>
  The memoising getters. Each is split into the value it returns (or the error it throws)
  and the static state it leaves behind; the write-back stores exactly the value returned,
  so a later read returns the same value (lemmas \<open>effectiveJsonApiBaseUrl_store_read\<close> and
  \<open>effectiveJsonApiType_store_read\<close> below), and the operations on instances read the
  statics without threading them.
\<close>

definition effectiveJsonApiBaseUrl :: "statics \<Rightarrow> error + string" where
  "effectiveJsonApiBaseUrl c =
     (case effectiveJsonApiBaseUrl_memo c of
        Some u \<Rightarrow> Inr u
      | None \<Rightarrow>
          (case jsonApiBaseUrl c of
             None \<Rightarrow> Inl MissingJsonApiBaseUrl
           | Some b \<Rightarrow> Inr (strip_trailing_slashes b)))"

definition effectiveJsonApiBaseUrl_store :: "statics \<Rightarrow> statics" where
  "effectiveJsonApiBaseUrl_store c =
     (case effectiveJsonApiBaseUrl_memo c of
        Some u \<Rightarrow> c
      | None \<Rightarrow>
          (case jsonApiBaseUrl c of
             None \<Rightarrow> c
           | Some b \<Rightarrow> c\<lparr>effectiveJsonApiBaseUrl_memo := Some (strip_trailing_slashes b)\<rparr>))"

definition effectiveJsonApiType :: "statics \<Rightarrow> error + string" where
  "effectiveJsonApiType c =
     (case effectiveJsonApiType_memo c of
        Some t \<Rightarrow> Inr t
      | None \<Rightarrow>
          (case jsonApiType c of
             None \<Rightarrow> Inl MissingJsonApiType
           | Some t \<Rightarrow> Inr t))"

definition effectiveJsonApiType_store :: "statics \<Rightarrow> statics" where
  "effectiveJsonApiType_store c =
     (case effectiveJsonApiType_memo c of
        Some t \<Rightarrow> c
      | None \<Rightarrow>
          (case jsonApiType c of
             None \<Rightarrow> c
           | Some t \<Rightarrow> c\<lparr>effectiveJsonApiType_memo := Some t\<rparr>))"

text \<open>\<open>(this.endpoint ?? this.effectiveJsonApiType).replace(/^\/+/, '').replace(/\/+$/, '')\<close>\<close>

definition effectiveEndpoint :: "statics \<Rightarrow> error + string" where
  "effectiveEndpoint c =
     (case endpoint c of
        Some e \<Rightarrow> Inr (strip_trailing_slashes (strip_leading_slashes e))
      | None \<Rightarrow>
          (case effectiveJsonApiType c of
             Inl err \<Rightarrow> Inl err
           | Inr t \<Rightarrow> Inr (strip_trailing_slashes (strip_leading_slashes t))))"

text \<open>The template string evaluates the base URL first, then the endpoint.\<close>

definition getJsonApiUrl :: "statics \<Rightarrow> error + string" where
  "getJsonApiUrl c =
     (case effectiveJsonApiBaseUrl c of
        Inl err \<Rightarrow> Inl err
      | Inr b \<Rightarrow>
          (case effectiveEndpoint c of
             Inl err \<Rightarrow> Inl err
           | Inr e \<Rightarrow> Inr (b @ ''/'' @ e)))"

section \<open>The ordered key-value container\<close>

text \<open>
  Modelled from the spec: the class \<open>util/Map\<close> is imported by \<open>Model\<close> and is not among
  the sources. The spec describes it as a minimal associative container preserving
  insertion order, with get, set and export to a plain mapping. It is an association list
  holding each key once: \<open>Map_set\<close> overwrites in place or appends, \<open>Map_get\<close> yields
  \<open>None\<close> (the source's \<open>undefined\<close>) for a missing key, and \<open>Map_toArray\<close> is the
  plain mapping whose keys the \<open>for ... in\<close> loops walk in order.
\<close>

type_synonym 'v omap = "(string \<times> 'v) list"

definition Map_get :: "'v omap \<Rightarrow> string \<Rightarrow> 'v option" where
  "Map_get m k = map_of m k"

fun Map_set :: "'v omap \<Rightarrow> string \<Rightarrow> 'v \<Rightarrow> 'v omap" where
  "Map_set [] k v = [(k, v)]"
| "Map_set ((k', v') # m) k v = (if k' = k then (k, v) # m else (k', v') # Map_set m k v)"

definition Map_toArray :: "'v omap \<Rightarrow> (string \<times> 'v) list" where
  "Map_toArray m = m"

section \<open>Entity instances\<close>

text \<open>
  An instance has its class (\<open>this.constructor\<close>, carried as the class's statics), its
  identity, its attributes and its relations. A relation value is \<open>any\<close>: the code
  distinguishes an instance of \<open>Model\<close>, an array (of instances), and everything else.
  Related instances are held by value here: a value of this type is the unfolding of an
  instance whose relation graph is a tree. Instances that are shared or that refer back to
  one another are modelled further down, as a store of objects holding references, for
  the operations that follow the relations to any depth.
\<close>

datatype model =
  Model (constructor: statics) (api_id: api_id)
        (attributes: "jsvalue omap") (relations: "(string \<times> relation) list")
and relation = RelModel model | RelArray "model list" | RelOther jsvalue

definition hasId :: "model \<Rightarrow> bool" where
  "hasId m = (api_id m \<noteq> IdUndefined \<and> api_id m \<noteq> IdNull \<and> api_id m \<noteq> IdString '''')"

definition getApiId :: "model \<Rightarrow> api_id" where
  "getApiId m = api_id m"

definition setApiId :: "api_id \<Rightarrow> model \<Rightarrow> model" where
  "setApiId i m = Model (constructor m) i (attributes m) (relations m)"

section \<open>Serialization to a write payload\<close>

record resource_identifier =
  ri_type :: string
  ri_id :: api_id

datatype relationship = ToOne resource_identifier | ToMany "resource_identifier list"

text \<open>
  The object \<open>payload.data\<close>; \<open>data_id = None\<close> is a payload without the key \<open>id\<close>.
\<close>

record payload_data =
  data_type :: string
  data_attributes :: "(string \<times> jsvalue) list"
  data_relationships :: "(string \<times> relationship) list"
  data_id :: "api_id option"

datatype payload = Payload (data: payload_data)

definition serializeRelatedModel :: "model \<Rightarrow> error + resource_identifier" where
  "serializeRelatedModel r =
     (case effectiveJsonApiType (constructor r) of
        Inl err \<Rightarrow> Inl err
      | Inr t \<Rightarrow> Inr \<lparr>ri_type = t, ri_id = api_id r\<rparr>)"

definition serializeToOneRelation :: "model \<Rightarrow> error + relationship" where
  "serializeToOneRelation r =
     (case serializeRelatedModel r of
        Inl err \<Rightarrow> Inl err
      | Inr ri \<Rightarrow> Inr (ToOne ri))"

text \<open>\<open>models.map(...)\<close>: left to right, the first throw aborts.\<close>

fun serializeRelatedModels :: "model list \<Rightarrow> error + resource_identifier list" where
  "serializeRelatedModels [] = Inr []"
| "serializeRelatedModels (r # rs) =
     (case serializeRelatedModel r of
        Inl err \<Rightarrow> Inl err
      | Inr ri \<Rightarrow>
          (case serializeRelatedModels rs of
             Inl err \<Rightarrow> Inl err
           | Inr ris \<Rightarrow> Inr (ri # ris)))"

definition serializeToManyRelation :: "model list \<Rightarrow> error + relationship" where
  "serializeToManyRelation rs =
     (case serializeRelatedModels rs of
        Inl err \<Rightarrow> Inl err
      | Inr ris \<Rightarrow> Inr (ToMany ris))"

text \<open>
  The loops \<open>for (let key in map.toArray()) { ... map.get(key) ... }\<close> visit the entries of
  the container in order; as the container holds each key once, \<open>get(key)\<close> is the value of
  the entry visited, and the functions below recurse over the entries.

  The first loop of \<open>serialize\<close>: every stored attribute whose key is not in
  \<open>readOnlyAttributes\<close> (\<open>indexOf(key) == -1\<close>) is copied.
\<close>

fun serializeAttributes :: "string list \<Rightarrow> (string \<times> jsvalue) list \<Rightarrow> (string \<times> jsvalue) list" where
  "serializeAttributes ro [] = []"
| "serializeAttributes ro ((key, v) # rest) =
     (if key \<notin> set ro then (key, v) # serializeAttributes ro rest
      else serializeAttributes ro rest)"

text \<open>
  The second loop: a \<open>Model\<close> gives a to-one relationship, a non-empty array a to-many
  relationship, anything else no key.
\<close>

fun serializeRelationships :: "(string \<times> relation) list \<Rightarrow> error + (string \<times> relationship) list" where
  "serializeRelationships [] = Inr []"
| "serializeRelationships ((key, RelModel r) # rest) =
     (case serializeToOneRelation r of
        Inl err \<Rightarrow> Inl err
      | Inr x \<Rightarrow>
          (case serializeRelationships rest of
             Inl err \<Rightarrow> Inl err
           | Inr xs \<Rightarrow> Inr ((key, x) # xs)))"
| "serializeRelationships ((key, RelArray rs) # rest) =
     (if length rs > 0 then
        (case serializeToManyRelation rs of
           Inl err \<Rightarrow> Inl err
         | Inr x \<Rightarrow>
             (case serializeRelationships rest of
                Inl err \<Rightarrow> Inl err
              | Inr xs \<Rightarrow> Inr ((key, x) # xs)))
      else serializeRelationships rest)"
| "serializeRelationships ((key, RelOther v) # rest) = serializeRelationships rest"

definition serialize :: "model \<Rightarrow> error + payload" where
  "serialize m =
     (let attrs = serializeAttributes (readOnlyAttributes (constructor m))
                    (Map_toArray (attributes m))
      in case serializeRelationships (Map_toArray (relations m)) of
           Inl err \<Rightarrow> Inl err
         | Inr relationships \<Rightarrow>
             (case effectiveJsonApiType (constructor m) of
                Inl err \<Rightarrow> Inl err
              | Inr t \<Rightarrow>
                  Inr (Payload \<lparr>data_type = t, data_attributes = attrs,
                                data_relationships = relationships,
                                data_id = (if hasId m then Some (api_id m) else None)\<rparr>)))"

section \<open>Relation paths\<close>

text \<open>
  \<open>if (parentRelationName)\<close>: an absent or empty parent name is falsy and gives the bare
  key, any other gives \<open>parentRelationName + '.' + key\<close>.
\<close>

definition relationName :: "string option \<Rightarrow> string \<Rightarrow> string" where
  "relationName parentRelationName key =
     (case parentRelationName of
        None \<Rightarrow> key
      | Some p \<Rightarrow> (if p \<noteq> '''' then p @ ''.'' @ key else key))"

text \<open>JavaScript truthiness of a value that is not an object of the model.\<close>

fun truthy :: "jsvalue \<Rightarrow> bool" where
  "truthy Undefined = False"
| "truthy Null = False"
| "truthy (Bool b) = b"
| "truthy (Num n) = (n \<noteq> 0)"
| "truthy (Str s) = (s \<noteq> '''')"
| "truthy (DateObj t) = True"

text \<open>
  \<open>getRelationsKeys(parentRelationName?)\<close>. The loop over the relations pushes the name of
  each relation and then appends what the related instances return; the recursive calls
  receive \<open>key\<close>, the name of the relation just visited. \<open>relationKeys\<close> is the
  \<open>if (Array.isArray(relation)) ... else if (relation) ...\<close> of the loop body: a truthy
  value that is no instance has no method \<open>getRelationsKeys\<close>, and calling it throws.
  \<open>forEachKeys\<close> is the \<open>forEach\<close> over an array relation.
\<close>

fun getRelationsKeys :: "string option \<Rightarrow> model \<Rightarrow> error + string list"
  and relationsKeys :: "string option \<Rightarrow> (string \<times> relation) list \<Rightarrow> error + string list"
  and relationKeys :: "string \<Rightarrow> relation \<Rightarrow> error + string list"
  and forEachKeys :: "string \<Rightarrow> model list \<Rightarrow> error + string list"
where
  "getRelationsKeys parentRelationName (Model c i attrs rels) =
     relationsKeys parentRelationName rels"
| "relationsKeys parentRelationName [] = Inr []"
| "relationsKeys parentRelationName ((key, relation) # rest) =
     (case relationKeys key relation of
        Inl err \<Rightarrow> Inl err
      | Inr nested \<Rightarrow>
          (case relationsKeys parentRelationName rest of
             Inl err \<Rightarrow> Inl err
           | Inr others \<Rightarrow> Inr (relationName parentRelationName key # nested @ others)))"
| "relationKeys key (RelModel r) = getRelationsKeys (Some key) r"
| "relationKeys key (RelArray rs) = forEachKeys key rs"
| "relationKeys key (RelOther v) = (if truthy v then Inl TypeError else Inr [])"
| "forEachKeys key [] = Inr []"
| "forEachKeys key (r # rs) =
     (case getRelationsKeys (Some key) r of
        Inl err \<Rightarrow> Inl err
      | Inr nested \<Rightarrow>
          (case forEachKeys key rs of
             Inl err \<Rightarrow> Inl err
           | Inr others \<Rightarrow> Inr (nested @ others)))"


fun entities_only :: "model \<Rightarrow> bool"
  and entities_only_relations :: "(string \<times> relation) list \<Rightarrow> bool"
  and entities_only_relation :: "relation \<Rightarrow> bool"
  and entities_only_array :: "model list \<Rightarrow> bool"
where
  "entities_only (Model c i attrs rels) = entities_only_relations rels"
| "entities_only_relations [] = True"
| "entities_only_relations ((key, relation) # rest) =
     (entities_only_relation relation \<and> entities_only_relations rest)"
| "entities_only_relation (RelModel r) = entities_only r"
| "entities_only_relation (RelArray rs) = entities_only_array rs"
| "entities_only_relation (RelOther v) = (\<not> truthy v)"
| "entities_only_array [] = True"
| "entities_only_array (r # rs) = (entities_only r \<and> entities_only_array rs)"

section \<open>Date attributes\<close>

text \<open>
  \<open>Date.parse\<close>, \<open>new Date\<close> and the formatter \<open>php-date-formatter\<close> belong to the host
  and to a dependency, not to this repository: the attribute accessors take them as
  parameters. \<open>Date.parse\<close> returns a number, either \<open>NaN\<close> or a time value in
  milliseconds.
\<close>

datatype js_number = NaN | Number int

record host =
  Date_parse :: "jsvalue \<Rightarrow> js_number"
  Date_new :: "jsvalue \<Rightarrow> jsvalue"
  parseDate :: "jsvalue \<Rightarrow> string \<Rightarrow> jsvalue"

text \<open>\<open>!n\<close> on a number: true for \<open>NaN\<close> and for zero.\<close>

definition not_number :: "js_number \<Rightarrow> bool" where
  "not_number n = (n = NaN \<or> n = Number 0)"

text \<open>\<open>dates.hasOwnProperty(attributeName)\<close>\<close>

definition isDateAttribute :: "statics \<Rightarrow> string \<Rightarrow> bool" where
  "isDateAttribute c attributeName = (map_of (dates c) attributeName \<noteq> None)"

definition attributes_get :: "model \<Rightarrow> string \<Rightarrow> jsvalue" where
  "attributes_get m attributeName =
     (case Map_get (attributes m) attributeName of None \<Rightarrow> Undefined | Some v \<Rightarrow> v)"

definition setAttribute :: "host \<Rightarrow> string \<Rightarrow> jsvalue \<Rightarrow> model \<Rightarrow> error + model" where
  "setAttribute h attributeName v m =
     (if isDateAttribute (constructor m) attributeName then
        (if not_number (Date_parse h v) then Inl CannotCastToDate
         else Inr (Model (constructor m) (api_id m)
                     (Map_set (attributes m) attributeName
                        (parseDate h v (the (map_of (dates (constructor m)) attributeName))))
                     (relations m)))
      else Inr (Model (constructor m) (api_id m)
                  (Map_set (attributes m) attributeName v) (relations m)))"

definition getAttributeAsDate :: "host \<Rightarrow> string \<Rightarrow> model \<Rightarrow> error + jsvalue" where
  "getAttributeAsDate h attributeName m =
     (if not_number (Date_parse h (attributes_get m attributeName)) then Inl CannotCastToDate
      else Inr (Date_new h (attributes_get m attributeName)))"

definition getAttribute :: "host \<Rightarrow> string \<Rightarrow> model \<Rightarrow> error + jsvalue" where
  "getAttribute h attributeName m =
     (if isDateAttribute (constructor m) attributeName then getAttributeAsDate h attributeName m
      else Inr (attributes_get m attributeName))"

section \<open>Requests\<close>

text \<open>
  Modelled from the spec: the interfaces \<open>HttpClient\<close> and \<open>HttpClientResponse\<close> are not
  among the sources (only the Axios client is). Per the spec each operation of the
  transport returns a future that resolves to a response object exposing the parsed body,
  or fails with a transport error. The transport is a function from the call made to the
  way its promise settles. A call records the verb, the URL and the body; a read also records the
  relation paths the builder asks to include. An operation of an instance either throws
  before any request (\<open>Inl\<close>) or returns a promise: the \<open>effect\<close> lists the calls made,
  how the returned promise settles, and the instance afterwards.
\<close>

datatype http_call =
    HttpGet string "string list"
  | HttpPost string payload
  | HttpPatch string payload
  | HttpDelete string

text \<open>
  What the code reads of a response: \<open>response.getData()\<close> (\<open>None\<close>: no body), its
  member \<open>data\<close> (\<open>None\<close>: no such member) and \<open>data.id\<close> (\<open>IdUndefined\<close>: no such member).
\<close>

datatype document = Document (doc_data: "api_id option")

datatype http_response = HttpResponse (getData: "document option")

datatype 'a promise = Fulfilled 'a | Rejected error

type_synonym http_client = "http_call \<Rightarrow> http_response promise"

record 'a effect =
  calls :: "http_call list"
  settled :: "'a promise"
  self :: model

text \<open>String concatenation with the identity: \<open>'/' + this.id\<close>.\<close>

fun id_text :: "api_id \<Rightarrow> string" where
  "id_text IdUndefined = ''undefined''"
| "id_text IdNull = ''null''"
| "id_text (IdString s) = s"

text \<open>
  Modelled from the spec: the response wrapper \<open>SaveResponse\<close> is not among the sources.
  The spec says of it only that it is a typed save result over the raw response document,
  so \<open>new SaveResponse(response, constructor, response.getData())\<close> is a parameter of
  \<open>save\<close> and \<open>create\<close>: \<open>newSaveResponse\<close> takes the three arguments and returns the
  wrapper, of any type, or throws.

  The fulfilment handler shared by \<open>save\<close> and \<open>create\<close>: reading \<open>.data.id\<close> throws when
  the body or its \<open>data\<close> is missing (the promise rejects, nothing was assigned yet);
  otherwise \<open>setApiId(idFromJson)\<close> runs with whatever \<open>data.id\<close> is, and after it the
  wrapper is constructed: when that throws, the promise rejects and the identity has
  already been overwritten.
\<close>

definition onSaved ::
  "(http_response \<Rightarrow> statics \<Rightarrow> document option \<Rightarrow> error + 'r) \<Rightarrow> model \<Rightarrow> http_response
     \<Rightarrow> 'r promise \<times> model" where
  "onSaved newSaveResponse m response =
     (case getData response of
        None \<Rightarrow> (Rejected TypeError, m)
      | Some d \<Rightarrow>
          (case doc_data d of
             None \<Rightarrow> (Rejected TypeError, m)
           | Some idFromJson \<Rightarrow>
               (case newSaveResponse response (constructor m) (getData response) of
                  Inl err \<Rightarrow> (Rejected err, setApiId idFromJson m)
                | Inr wrapper \<Rightarrow> (Fulfilled wrapper, setApiId idFromJson m))))"

definition request_saved ::
  "(http_response \<Rightarrow> statics \<Rightarrow> document option \<Rightarrow> error + 'r) \<Rightarrow> http_client \<Rightarrow> http_call
     \<Rightarrow> model \<Rightarrow> 'r effect" where
  "request_saved newSaveResponse http call m =
     (case http call of
        Fulfilled response \<Rightarrow>
          \<lparr>calls = [call], settled = fst (onSaved newSaveResponse m response),
           self = snd (onSaved newSaveResponse m response)\<rparr>
      | Rejected err \<Rightarrow> \<lparr>calls = [call], settled = Rejected err, self = m\<rparr>)"

definition create ::
  "(http_response \<Rightarrow> statics \<Rightarrow> document option \<Rightarrow> error + 'r) \<Rightarrow> http_client \<Rightarrow> model
     \<Rightarrow> error + 'r effect" where
  "create newSaveResponse http m =
     (case serialize m of
        Inl err \<Rightarrow> Inl err
      | Inr payload \<Rightarrow>
          (case getJsonApiUrl (constructor m) of
             Inl err \<Rightarrow> Inl err
           | Inr url \<Rightarrow> Inr (request_saved newSaveResponse http (HttpPost url payload) m)))"

definition save ::
  "(http_response \<Rightarrow> statics \<Rightarrow> document option \<Rightarrow> error + 'r) \<Rightarrow> http_client \<Rightarrow> model
     \<Rightarrow> error + 'r effect" where
  "save newSaveResponse http m =
     (if \<not> hasId m then create newSaveResponse http m
      else
        (case serialize m of
           Inl err \<Rightarrow> Inl err
         | Inr payload \<Rightarrow>
             (case getJsonApiUrl (constructor m) of
                Inl err \<Rightarrow> Inl err
              | Inr url \<Rightarrow>
                  Inr (request_saved newSaveResponse http
                         (HttpPatch (url @ ''/'' @ id_text (api_id m)) payload) m))))"

definition delete :: "http_client \<Rightarrow> model \<Rightarrow> error + unit effect" where
  "delete http m =
     (if \<not> hasId m then Inl CannotDeleteWithoutId
      else
        (case getJsonApiUrl (constructor m) of
           Inl err \<Rightarrow> Inl err
         | Inr url \<Rightarrow>
             (let call = HttpDelete (url @ ''/'' @ id_text (api_id m))
              in Inr \<lparr>calls = [call],
                      settled = (case http call of
                                   Fulfilled response \<Rightarrow> Fulfilled ()
                                 | Rejected err \<Rightarrow> Rejected err),
                      self = m\<rparr>)))"

section \<open>Re-fetching an instance\<close>

text \<open>
  Modelled from the spec: the class \<open>Builder\<close> and the response wrapper
  \<open>SingularResponse\<close> are used by \<open>fresh\<close> and are not among the sources. Per the spec a
  builder is bound to an entity type and accumulates relation-inclusion paths; \<open>with\<close>
  accepts an array of paths and is a pure mutator; \<open>find(id)\<close> fetches the single-resource
  endpoint \<open><baseUrl>/<endpointOrType>/<id>\<close> with the accumulated includes, makes one
  transport call and returns a singular response wrapper, a transport failure being
  propagated unchanged. Turning the response body into an instance is the builder's
  graph assembly; it is the parameter \<open>assemble\<close> (\<open>None\<close>: the wrapper holds \<open>null\<close>).
\<close>

record builder =
  modelType :: statics
  included :: "string list"

definition query :: "statics \<Rightarrow> builder" where
  "query c = \<lparr>modelType = c, included = []\<rparr>"

definition Builder_with :: "string list \<Rightarrow> builder \<Rightarrow> builder" where
  "Builder_with paths b = b\<lparr>included := included b @ paths\<rparr>"

datatype singular_response = SingularResponse (response_getData: "model option")

definition Builder_find ::
  "(http_response \<Rightarrow> model option) \<Rightarrow> http_client \<Rightarrow> string \<Rightarrow> builder
     \<Rightarrow> error + http_call \<times> singular_response promise" where
  "Builder_find assemble http ident b =
     (case getJsonApiUrl (modelType b) of
        Inl err \<Rightarrow> Inl err
      | Inr url \<Rightarrow>
          (let call = HttpGet (url @ ''/'' @ ident) (included b)
           in Inr (call,
                   (case http call of
                      Fulfilled response \<Rightarrow> Fulfilled (SingularResponse (assemble response))
                    | Rejected err \<Rightarrow> Rejected err))))"

text \<open>
  What the promise of \<open>fresh\<close> resolves to: \<open>undefined\<close>, \<open>null\<close>, or an instance.
\<close>

datatype fresh_result = FreshUndefined | FreshNull | FreshModel model

text \<open>\<open>if (this.getApiId())\<close>: only a non-empty string is truthy.\<close>

fun truthy_id :: "api_id \<Rightarrow> bool" where
  "truthy_id IdUndefined = False"
| "truthy_id IdNull = False"
| "truthy_id (IdString s) = (s \<noteq> '''')"

text \<open>
  \<open>fresh\<close>: a new instance of the same class gives the builder; the relation paths are
  computed (and the builder told to include them) before the identity is looked at.
\<close>

definition new_model :: "statics \<Rightarrow> model" where
  "new_model c = Model c IdUndefined [] []"

definition fresh ::
  "(http_response \<Rightarrow> model option) \<Rightarrow> http_client \<Rightarrow> model \<Rightarrow> error + fresh_result effect" where
  "fresh assemble http m =
     (case getRelationsKeys None m of
        Inl err \<Rightarrow> Inl err
      | Inr keys \<Rightarrow>
          (let b = Builder_with keys (query (constructor (new_model (constructor m))))
           in if truthy_id (getApiId m) then
                (case Builder_find assemble http (id_text (getApiId m)) b of
                   Inl err \<Rightarrow> Inl err
                 | Inr (call, p) \<Rightarrow>
                     Inr \<lparr>calls = [call],
                          settled = (case p of
                                       Fulfilled response \<Rightarrow>
                                         Fulfilled (case response_getData response of
                                                      None \<Rightarrow> FreshNull
                                                    | Some x \<Rightarrow> FreshModel x)
                                     | Rejected err \<Rightarrow> Rejected err),
                          self = m\<rparr>)
              else Inr \<lparr>calls = [], settled = Fulfilled FreshUndefined, self = m\<rparr>))"

section \<open>Instances that share or refer back to one another\<close>

text \<open>
  A relation of the source holds a reference to an instance, and instances set with
  \<open>setRelation\<close> or assembled from a response document may be shared or refer back to one
  another. The datatype \<open>model\<close> above is the unfolding of such a graph when it is a tree.
  For the operations that follow the relations to any depth, \<open>getRelationsKeys\<close> and
  \<open>fresh\<close>, the graph itself is modelled too: instances live in a store and relations
  hold references into it.
\<close>

type_synonym ref = nat

datatype reference = RefModel ref | RefArray "ref list" | RefOther jsvalue

record object =
  object_constructor :: statics
  object_id :: api_id
  object_attributes :: "jsvalue omap"
  object_relations :: "(string \<times> reference) list"

type_synonym store = "ref \<Rightarrow> object"

text \<open>
  \<open>getRelationsKeys\<close> on the store. The loop, its body and the \<open>forEach\<close> are as on
  trees; they take as \<open>call\<close> the method \<open>getRelationsKeys\<close> that they invoke on the related
  instances. The recursion has no visited set and need not end, so the method carries the
  depth of calls still allowed: \<open>None\<close> is a recursion cut off at that depth, and a call
  that gives \<open>None\<close> at every depth is a call that does not return (a JavaScript engine
  ends it with a stack overflow).
\<close>

type_synonym keys_result = "(error + string list) option"

fun forEachKeys_with :: "(string option \<Rightarrow> ref \<Rightarrow> keys_result) \<Rightarrow> string \<Rightarrow> ref list \<Rightarrow> keys_result" where
  "forEachKeys_with call key [] = Some (Inr [])"
| "forEachKeys_with call key (r # rs) =
     (case call (Some key) r of
        None \<Rightarrow> None
      | Some (Inl err) \<Rightarrow> Some (Inl err)
      | Some (Inr nested) \<Rightarrow>
          (case forEachKeys_with call key rs of
             None \<Rightarrow> None
           | Some (Inl err) \<Rightarrow> Some (Inl err)
           | Some (Inr others) \<Rightarrow> Some (Inr (nested @ others))))"

fun relationKeys_with :: "(string option \<Rightarrow> ref \<Rightarrow> keys_result) \<Rightarrow> string \<Rightarrow> reference \<Rightarrow> keys_result" where
  "relationKeys_with call key (RefModel r) = call (Some key) r"
| "relationKeys_with call key (RefArray rs) = forEachKeys_with call key rs"
| "relationKeys_with call key (RefOther v) =
     (if truthy v then Some (Inl TypeError) else Some (Inr []))"

fun relationsKeys_with ::
  "(string option \<Rightarrow> ref \<Rightarrow> keys_result) \<Rightarrow> string option \<Rightarrow> (string \<times> reference) list
     \<Rightarrow> keys_result" where
  "relationsKeys_with call parentRelationName [] = Some (Inr [])"
| "relationsKeys_with call parentRelationName ((key, relation) # rest) =
     (case relationKeys_with call key relation of
        None \<Rightarrow> None
      | Some (Inl err) \<Rightarrow> Some (Inl err)
      | Some (Inr nested) \<Rightarrow>
          (case relationsKeys_with call parentRelationName rest of
             None \<Rightarrow> None
           | Some (Inl err) \<Rightarrow> Some (Inl err)
           | Some (Inr others) \<Rightarrow>
               Some (Inr (relationName parentRelationName key # nested @ others))))"

fun getRelationsKeys_at :: "nat \<Rightarrow> store \<Rightarrow> string option \<Rightarrow> ref \<Rightarrow> keys_result" where
  "getRelationsKeys_at 0 h parentRelationName r = None"
| "getRelationsKeys_at (Suc n) h parentRelationName r =
     relationsKeys_with (getRelationsKeys_at n h) parentRelationName (object_relations (h r))"

text \<open>
  A tree is the unfolding of the store at a reference: the same class, identity and
  attributes, and relation by relation the unfolding of what the references point to.
\<close>

fun unfolds_to :: "store \<Rightarrow> ref \<Rightarrow> model \<Rightarrow> bool"
  and relations_unfold_to :: "store \<Rightarrow> (string \<times> reference) list \<Rightarrow> (string \<times> relation) list \<Rightarrow> bool"
  and relation_unfolds_to :: "store \<Rightarrow> reference \<Rightarrow> relation \<Rightarrow> bool"
  and array_unfolds_to :: "store \<Rightarrow> ref list \<Rightarrow> model list \<Rightarrow> bool"
where
  "unfolds_to h r (Model c i attrs rels) =
     (object_constructor (h r) = c \<and> object_id (h r) = i \<and> object_attributes (h r) = attrs
      \<and> relations_unfold_to h (object_relations (h r)) rels)"
| "relations_unfold_to h xs [] = (xs = [])"
| "relations_unfold_to h xs ((key, relation) # rest) =
     (case xs of
        [] \<Rightarrow> False
      | (key', x) # xs' \<Rightarrow>
          key' = key \<and> relation_unfolds_to h x relation \<and> relations_unfold_to h xs' rest)"
| "relation_unfolds_to h x (RelModel m) =
     (case x of RefModel r \<Rightarrow> unfolds_to h r m | RefArray rs \<Rightarrow> False | RefOther v \<Rightarrow> False)"
| "relation_unfolds_to h x (RelArray ms) =
     (case x of RefModel r \<Rightarrow> False | RefArray rs \<Rightarrow> array_unfolds_to h rs ms
      | RefOther v \<Rightarrow> False)"
| "relation_unfolds_to h x (RelOther v) = (x = RefOther v)"
| "array_unfolds_to h rs [] = (rs = [])"
| "array_unfolds_to h rs (m # ms) =
     (case rs of [] \<Rightarrow> False | r # rs' \<Rightarrow> unfolds_to h r m \<and> array_unfolds_to h rs' ms)"

text \<open>
  \<open>fresh\<close> on the store: as on trees, with the depth of calls allowed to
  \<open>getRelationsKeys\<close>. It returns the calls made and the way the promise settles.
\<close>

definition fresh_at ::
  "nat \<Rightarrow> (http_response \<Rightarrow> model option) \<Rightarrow> http_client \<Rightarrow> store \<Rightarrow> ref
     \<Rightarrow> (error + http_call list \<times> fresh_result promise) option" where
  "fresh_at n assemble http h r =
     (case getRelationsKeys_at n h None r of
        None \<Rightarrow> None
      | Some (Inl err) \<Rightarrow> Some (Inl err)
      | Some (Inr keys) \<Rightarrow>
          Some (let b = Builder_with keys
                          (query (constructor (new_model (object_constructor (h r)))))
                in if truthy_id (object_id (h r)) then
                     (case Builder_find assemble http (id_text (object_id (h r))) b of
                        Inl err \<Rightarrow> Inl err
                      | Inr (call, p) \<Rightarrow>
                          Inr ([call],
                               (case p of
                                  Fulfilled response \<Rightarrow>
                                    Fulfilled (case response_getData response of
                                                 None \<Rightarrow> FreshNull
                                               | Some x \<Rightarrow> FreshModel x)
                                | Rejected err \<Rightarrow> Rejected err)))
                   else Inr ([], Fulfilled FreshUndefined)))"

section \<open>Observations and sample data\<close>

text \<open>
  Three observations of what an operation returned: the identity of the instance
  afterwards, the transport calls made (none when the operation threw), and whether the
  returned promise was fulfilled.
\<close>

definition identity_after :: "error + 'a effect \<Rightarrow> api_id option" where
  "identity_after r = (case r of Inl err \<Rightarrow> None | Inr e \<Rightarrow> Some (getApiId (self e)))"

definition requests :: "error + 'a effect \<Rightarrow> http_call list" where
  "requests r = (case r of Inl err \<Rightarrow> [] | Inr e \<Rightarrow> calls e)"

definition resolves :: "error + 'a effect \<Rightarrow> bool" where
  "resolves r =
     (case r of
        Inl err \<Rightarrow> False
      | Inr e \<Rightarrow> (case settled e of Fulfilled x \<Rightarrow> True | Rejected err \<Rightarrow> False))"

text \<open>
  Entity classes as an application declares them: a base URL, a type, read-only
  attributes and date attributes; nothing memoised yet, no endpoint override.
\<close>

definition entity_class :: "string \<Rightarrow> string \<Rightarrow> string list \<Rightarrow> (string \<times> string) list \<Rightarrow> statics" where
  "entity_class base t ro ds =
     \<lparr>jsonApiBaseUrl = Some base, effectiveJsonApiBaseUrl_memo = None,
      jsonApiType = Some t, effectiveJsonApiType_memo = None,
      endpoint = None, readOnlyAttributes = ro, dates = ds\<rparr>"

definition article_class :: statics where
  "article_class =
     entity_class ''http://api.test/v1/'' ''articles'' [''createdAt''] [(''publishedAt'', ''Y-m-d'')]"

definition author_class :: statics where
  "author_class = entity_class ''http://api.test/v1/'' ''authors'' [] []"

definition book_class :: statics where
  "book_class = entity_class ''http://api.test/v1/'' ''books'' [] []"

definition publisher_class :: statics where
  "publisher_class = entity_class ''http://api.test/v1/'' ''publishers'' [] []"

definition tag_class :: statics where
  "tag_class = entity_class ''http://api.test/v1/'' ''tags'' [] []"

text \<open>
  An article with an author who has one book that has a publisher: relations three
  levels deep, next to a to-many relation, an empty array and a \<open>null\<close>.
\<close>

definition publisher_example :: model where
  "publisher_example = Model publisher_class (IdString ''7'') [] []"

definition book_example :: model where
  "book_example =
     Model book_class (IdString ''5'') [(''title'', Str ''Dune'')]
       [(''publisher'', RelModel publisher_example)]"

definition author_example :: model where
  "author_example =
     Model author_class (IdString ''9'') [(''name'', Str ''Ann'')]
       [(''books'', RelArray [book_example])]"

definition tag_a :: model where
  "tag_a = Model tag_class (IdString ''21'') [] []"

definition tag_b :: model where
  "tag_b = Model tag_class (IdString ''22'') [] []"

definition article_example :: model where
  "article_example =
     Model article_class (IdString ''1'')
       [(''title'', Str ''Hello''), (''createdAt'', Str ''2020-01-01'')]
       [(''author'', RelModel author_example), (''tags'', RelArray [tag_a, tag_b]),
        (''drafts'', RelArray []), (''editor'', RelOther Null)]"

text \<open>The same article before it was ever saved, without relations.\<close>

definition unsaved_article :: model where
  "unsaved_article =
     Model article_class IdUndefined
       [(''title'', Str ''Hello''), (''createdAt'', Str ''2020-01-01'')] []"

text \<open>
  The example of the spec: a to-one relation \<open>author\<close> whose to-many relation \<open>books\<close> is
  populated, the books having no relations of their own.
\<close>

definition plain_book :: model where
  "plain_book = Model book_class (IdString ''6'') [] []"

definition plain_author :: model where
  "plain_author = Model author_class (IdString ''8'') [] [(''books'', RelArray [plain_book])]"

definition review_example :: model where
  "review_example = Model article_class (IdString ''2'') [] [(''author'', RelModel plain_author)]"

text \<open>The chain alone: article, author, book, publisher.\<close>

definition chain_example :: model where
  "chain_example = Model article_class (IdString ''3'') [] [(''author'', RelModel author_example)]"

text \<open>
  Transports: one that answers every call with a document whose \<open>data\<close> has no \<open>id\<close>,
  one that answers with a given identity, one that fails every call.
\<close>

definition respond_without_id :: http_client where
  "respond_without_id call = Fulfilled (HttpResponse (Some (Document (Some IdUndefined))))"

definition respond_with_id :: "string \<Rightarrow> http_client" where
  "respond_with_id s call = Fulfilled (HttpResponse (Some (Document (Some (IdString s)))))"

definition refuse :: http_client where
  "refuse call = Rejected (TransportError 404)"

definition assemble_nothing :: "http_response \<Rightarrow> model option" where
  "assemble_nothing response = None"

text \<open>
  A host for the date attributes that knows one date string: ECMAScript's \<open>Date.parse\<close>
  gives the time value 0 for the epoch, \<open>1970-01-01T00:00:00.000Z\<close>. The formatter
  stand-in returns its input.
\<close>

definition epoch_host :: host where
  "epoch_host =
     \<lparr>Date_parse = (\<lambda>v. if v = Str ''1970-01-01T00:00:00.000Z'' then Number 0 else NaN),
      Date_new = (\<lambda>v. v),
      parseDate = (\<lambda>v fmt. v)\<rparr>"

text \<open>
  A host that also knows a date after the epoch: \<open>Date.parse('2020-01-01T00:00:00.000Z')\<close>
  is 1577836800000.
\<close>

definition sample_host :: host where
  "sample_host =
     \<lparr>Date_parse = (\<lambda>v. if v = Str ''1970-01-01T00:00:00.000Z'' then Number 0
                          else if v = Str ''2020-01-01T00:00:00.000Z'' then Number 1577836800000
                          else NaN),
      Date_new = (\<lambda>v. if v = Str ''2020-01-01T00:00:00.000Z'' then DateObj 1577836800000
                        else if v = Str ''1970-01-01T00:00:00.000Z'' then DateObj 0
                        else v),
      parseDate = (\<lambda>v fmt. v)\<rparr>"

text \<open>The payloads the two sample articles serialize to.\<close>

definition article_payload :: payload where
  "article_payload =
     Payload \<lparr>data_type = ''articles'',
              data_attributes = [(''title'', Str ''Hello'')],
              data_relationships =
                [(''author'', ToOne \<lparr>ri_type = ''authors'', ri_id = IdString ''9''\<rparr>),
                 (''tags'', ToMany [\<lparr>ri_type = ''tags'', ri_id = IdString ''21''\<rparr>,
                                    \<lparr>ri_type = ''tags'', ri_id = IdString ''22''\<rparr>])],
              data_id = Some (IdString ''1'')\<rparr>"

definition unsaved_payload :: payload where
  "unsaved_payload =
     Payload \<lparr>data_type = ''articles'',
              data_attributes = [(''title'', Str ''Hello'')],
              data_relationships = [],
              data_id = None\<rparr>"

text \<open>
  A comment not yet saved, related to a post fetched together with its comments: the
  post holds its comment and that comment holds the post. References 0, 1 and 2 are the
  new comment, the post and the fetched comment; every other reference holds an instance
  without relations.
\<close>

definition comment_class :: statics where
  "comment_class = entity_class ''http://api.test/v1/'' ''comments'' [] []"

definition post_class :: statics where
  "post_class = entity_class ''http://api.test/v1/'' ''posts'' [] []"

definition circular_store :: store where
  "circular_store r =
     (if r = 0 then
        \<lparr>object_constructor = comment_class, object_id = IdUndefined,
         object_attributes = [(''body'', Str ''First'')],
         object_relations = [(''post'', RefModel 1)]\<rparr>
      else if r = 1 then
        \<lparr>object_constructor = post_class, object_id = IdString ''1'',
         object_attributes = [], object_relations = [(''comments'', RefArray [2])]\<rparr>
      else if r = 2 then
        \<lparr>object_constructor = comment_class, object_id = IdString ''5'',
         object_attributes = [], object_relations = [(''post'', RefModel 1)]\<rparr>
      else
        \<lparr>object_constructor = comment_class, object_id = IdUndefined,
         object_attributes = [], object_relations = []\<rparr>)"

text \<open>An unsaved article whose relation \<open>editor\<close> was set to a string.\<close>

definition mislabelled_article :: model where
  "mislabelled_article =
     Model article_class IdUndefined [(''title'', Str ''Hello'')]
       [(''editor'', RelOther (Str ''Ann''))]"

text \<open>
  The store of the spec's example: a review (reference 0) whose \<open>author\<close> (1) has one book
  (2).
\<close>

definition review_store :: store where
  "review_store r =
     (if r = 0 then
        \<lparr>object_constructor = article_class, object_id = IdString ''2'',
         object_attributes = [], object_relations = [(''author'', RefModel 1)]\<rparr>
      else if r = 1 then
        \<lparr>object_constructor = author_class, object_id = IdString ''8'',
         object_attributes = [], object_relations = [(''books'', RefArray [2])]\<rparr>
      else
        \<lparr>object_constructor = book_class, object_id = IdString ''6'',
         object_attributes = [], object_relations = []\<rparr>)"

text \<open>
  Two constructors of the save result: one wraps its three arguments, one throws.
\<close>

datatype save_response = SaveResponse http_response statics "document option"

definition wrap_response :: "http_response \<Rightarrow> statics \<Rightarrow> document option \<Rightarrow> error + save_response" where
  "wrap_response response c body = Inr (SaveResponse response c body)"

definition failing_wrapper :: "http_response \<Rightarrow> statics \<Rightarrow> document option \<Rightarrow> error + save_response" where
  "failing_wrapper response c body = Inl TypeError"

section \<open>Properties of the configuration getters and of the container\<close>

text \<open>Reading a getter again after its write-back gives the value it returned.\<close>

lemma effectiveJsonApiType_store_read:
  "effectiveJsonApiType (effectiveJsonApiType_store c) = effectiveJsonApiType c"
  by (simp add: effectiveJsonApiType_def effectiveJsonApiType_store_def split: option.splits)

lemma effectiveJsonApiBaseUrl_store_read:
  "effectiveJsonApiBaseUrl (effectiveJsonApiBaseUrl_store c) = effectiveJsonApiBaseUrl c"
  by (simp add: effectiveJsonApiBaseUrl_def effectiveJsonApiBaseUrl_store_def
      split: option.splits)

lemma getJsonApiUrl_parts:
  assumes "effectiveJsonApiBaseUrl c = Inr base" and "effectiveEndpoint c = Inr ep"
  shows "getJsonApiUrl c = Inr (base @ ''/'' @ ep)"
  using assms by (simp add: getJsonApiUrl_def)

text \<open>\<open>Map_set\<close> keeps the keys distinct and their order; \<open>Map_get\<close> reads what was set.\<close>

lemma Map_set_keys:
  "map fst (Map_set m k v) = (if k \<in> set (map fst m) then map fst m else map fst m @ [k])"
  by (induction m) (force simp: image_iff)+

lemma Map_set_distinct:
  "distinct (map fst m) \<Longrightarrow> distinct (map fst (Map_set m k v))"
  by (simp add: Map_set_keys)

lemma Map_get_set:
  "Map_get (Map_set m k v) k' = (if k' = k then Some v else Map_get m k')"
  by (induction m) (auto simp: Map_get_def)

lemma hasId_iff: "hasId m \<longleftrightarrow> (\<exists>s. s \<noteq> '''' \<and> api_id m = IdString s)"
  by (cases "api_id m") (auto simp: hasId_def)

section \<open>The sample data evaluated\<close>

lemmas sample_defs =
  entity_class_def article_class_def author_class_def book_class_def publisher_class_def
  tag_class_def publisher_example_def book_example_def author_example_def tag_a_def tag_b_def
  article_example_def unsaved_article_def plain_book_def plain_author_def review_example_def
  chain_example_def

lemmas serialize_defs =
  serialize_def Map_toArray_def serializeToOneRelation_def serializeToManyRelation_def
  serializeRelatedModel_def effectiveJsonApiType_def hasId_def

lemmas url_defs =
  effectiveJsonApiBaseUrl_def effectiveEndpoint_def effectiveJsonApiType_def
  strip_leading_slashes_def strip_trailing_slashes_def

lemmas saved_defs =
  request_saved_def onSaved_def setApiId_def getApiId_def identity_after_def resolves_def
  respond_without_id_def respond_with_id_def refuse_def wrap_response_def

lemma serialize_article_example: "serialize article_example = Inr article_payload"
  by (simp add: sample_defs serialize_defs article_payload_def)

lemma serialize_unsaved_article: "serialize unsaved_article = Inr unsaved_payload"
  by (simp add: sample_defs serialize_defs unsaved_payload_def)

lemma constructor_article_example: "constructor article_example = article_class"
  by (simp add: article_example_def)

lemma constructor_unsaved_article: "constructor unsaved_article = article_class"
  by (simp add: unsaved_article_def)

lemma api_id_article_example: "api_id article_example = IdString ''1''"
  by (simp add: article_example_def)

lemma base_article_class: "effectiveJsonApiBaseUrl article_class = Inr ''http://api.test/v1''"
  by (simp add: sample_defs url_defs)

lemma endpoint_article_class: "effectiveEndpoint article_class = Inr ''articles''"
  by (simp add: sample_defs url_defs)

lemma getJsonApiUrl_article_class:
  "getJsonApiUrl article_class = Inr ''http://api.test/v1/articles''"
  using getJsonApiUrl_parts [OF base_article_class endpoint_article_class] by simp

lemma hasId_article_example: "hasId article_example"
  by (simp add: article_example_def hasId_def)

lemma not_hasId_unsaved_article: "\<not> hasId unsaved_article"
  by (simp add: unsaved_article_def hasId_def)


lemma entities_only_article_example: "entities_only article_example"
  by (simp add: sample_defs)

lemma entities_only_unsaved_article: "entities_only unsaved_article"
  by (simp add: sample_defs)

lemma getRelationsKeys_article_example:
  "getRelationsKeys None article_example =
     Inr [''author'', ''author.books'', ''books.publisher'', ''tags'', ''drafts'', ''editor'']"
  by (simp add: sample_defs relationName_def)

lemma getRelationsKeys_unsaved_article: "getRelationsKeys None unsaved_article = Inr []"
  by (simp add: sample_defs)

lemma save_article_example:
  "save mk http article_example =
     Inr (request_saved mk http (HttpPatch ''http://api.test/v1/articles/1'' article_payload)
            article_example)"
  using serialize_article_example getJsonApiUrl_article_class hasId_article_example
  by (simp add: save_def constructor_article_example api_id_article_example)

lemma create_unsaved_article:
  "create mk http unsaved_article =
     Inr (request_saved mk http (HttpPost ''http://api.test/v1/articles'' unsaved_payload)
            unsaved_article)"
  using serialize_unsaved_article getJsonApiUrl_article_class
  by (simp add: create_def constructor_unsaved_article)

lemma delete_article_example:
  "delete (respond_with_id ''1'') article_example =
     Inr \<lparr>calls = [HttpDelete ''http://api.test/v1/articles/1''],
          settled = Fulfilled (), self = article_example\<rparr>"
  using getJsonApiUrl_article_class hasId_article_example
  by (simp add: delete_def constructor_article_example api_id_article_example
        respond_with_id_def Let_def)

section \<open>The write payload\<close>










subsection \<open>Relationships\<close>











text \<open>
  Without a type for the class of a related instance no payload is produced: the
  configuration error of that class is thrown.
\<close>

lemma serialize_untyped_relation:
  assumes "Map_get (relations m) key = Some (RelModel r)"
    and "effectiveJsonApiType (constructor r) = Inl err"
  shows "\<exists>err'. serialize m = Inl err'"
proof -
  have "\<exists>err'. serializeRelationships xs = Inl err'" if "map_of xs key = Some (RelModel r)" for xs
    using that
  proof (induction xs)
    case Nil
    then show ?case by simp
  next
    case (Cons e xs)
    obtain k rel where e: "e = (k, rel)" by (cases e)
    show ?case
    proof (cases "k = key")
      case True
      with Cons.prems e assms(2) show ?thesis
        by (simp add: serializeToOneRelation_def serializeRelatedModel_def)
    next
      case False
      with Cons.prems e have "map_of xs key = Some (RelModel r)" by simp
      from Cons.IH [OF this] obtain err' where rest: "serializeRelationships xs = Inl err'" ..
      show ?thesis
      proof (cases rel)
        case (RelModel r')
        with e rest show ?thesis by (simp split: sum.splits)
      next
        case (RelArray rs)
        with e rest show ?thesis by (simp split: sum.splits)
      next
        case (RelOther v)
        with e rest show ?thesis by simp
      qed
    qed
  qed
  from this [of "relations m"] assms(1) obtain err' where
    "serializeRelationships (relations m) = Inl err'"
    by (auto simp: Map_get_def)
  then show ?thesis by (simp add: serialize_def Map_toArray_def)
qed

section \<open>Saving\<close>

lemma calls_request_saved: "calls (request_saved mk http call m) = [call]"
  by (simp add: request_saved_def split: promise.splits)

lemma create_InrI:
  assumes "getJsonApiUrl (constructor m) = Inr url" and "serialize m = Inr p"
  shows "create mk http m = Inr (request_saved mk http (HttpPost url p) m)"
  using assms by (simp add: create_def)



subsection \<open>The identity after a save\<close>

lemma request_saved_fulfilled:
  assumes "settled (request_saved mk http call m) = Fulfilled wrapper"
  shows "\<exists>response d. http call = Fulfilled response \<and> getData response = Some d
           \<and> mk response (constructor m) (Some d) = Inr wrapper
           \<and> doc_data d = Some (getApiId (self (request_saved mk http call m)))"
  using assms
  by (auto simp: request_saved_def onSaved_def setApiId_def getApiId_def
           split: promise.splits option.splits sum.splits)

lemma request_saved_fulfils:
  assumes "http call = Fulfilled response" and "getData response = Some d"
    and "doc_data d = Some i" and "mk response (constructor m) (Some d) = Inr wrapper"
  shows "settled (request_saved mk http call m) = Fulfilled wrapper
         \<and> getApiId (self (request_saved mk http call m)) = i"
  using assms
  by (simp add: request_saved_def onSaved_def setApiId_def getApiId_def)

text \<open>
  Claim C5 fails as it is written: a persisted article is saved, the transport answers
  with a document whose \<open>data\<close> has no \<open>id\<close>, the promise of \<open>save\<close> is fulfilled, and the
  identity of the article is \<open>undefined\<close> afterwards.
\<close>

theorem save_identity_untouched_counterexample:
  "getApiId article_example = IdString ''1''
   \<and> resolves (save wrap_response respond_without_id article_example)
   \<and> identity_after (save wrap_response respond_without_id article_example) = Some IdUndefined"
  by (simp add: save_article_example saved_defs api_id_article_example)

text \<open>
  Claim C5, amended. For an instance of a class whose URL resolves and whose payload is
  serialized, \<open>save\<close> and \<open>create\<close> make one call, and their promise is fulfilled exactly
  when the transport answers that call with a response that has a body with a member
  \<open>data\<close> and the save result is constructed from it; the identity of the instance is
  then the \<open>id\<close> of that \<open>data\<close>, whatever it is: a \<open>data\<close> without \<open>id\<close> leaves the instance
  with the identity \<open>undefined\<close>.
\<close>

theorem save_adopts_response_identity:
  assumes "effectiveJsonApiBaseUrl (constructor m) = Inr base"
    and "effectiveEndpoint (constructor m) = Inr ep"
    and "serialize m = Inr p"
    and "operation = save \<or> operation = create"
  shows "\<exists>e call. operation mk http m = Inr e \<and> calls e = [call]
       \<and> (\<forall>wrapper. settled e = Fulfilled wrapper \<longrightarrow>
            (\<exists>response d. http call = Fulfilled response \<and> getData response = Some d
               \<and> mk response (constructor m) (Some d) = Inr wrapper
               \<and> doc_data d = Some (getApiId (self e))))
       \<and> (\<forall>response d i wrapper.
            http call = Fulfilled response \<and> getData response = Some d \<and> doc_data d = Some i
            \<and> mk response (constructor m) (Some d) = Inr wrapper \<longrightarrow>
            settled e = Fulfilled wrapper \<and> getApiId (self e) = i)"
proof -
  note url = getJsonApiUrl_parts [OF assms(1,2)]
  have "\<exists>call. operation mk http m = Inr (request_saved mk http call m)"
  proof (cases "operation = create \<or> \<not> hasId m")
    case True
    with assms(4) have "operation mk http m = create mk http m" by (auto simp: save_def)
    with create_InrI [OF url assms(3), of mk http] show ?thesis by auto
  next
    case False
    with assms(4) have "operation = save" and "hasId m" by auto
    with url assms(3) show ?thesis by (auto simp: save_def)
  qed
  then obtain call where e: "operation mk http m = Inr (request_saved mk http call m)" ..
  show ?thesis
  proof (rule exI [of _ "request_saved mk http call m"], rule exI [of _ call], intro conjI)
    show "operation mk http m = Inr (request_saved mk http call m)" by (rule e)
    show "calls (request_saved mk http call m) = [call]" by (rule calls_request_saved)
    show "\<forall>wrapper. settled (request_saved mk http call m) = Fulfilled wrapper \<longrightarrow>
            (\<exists>response d. http call = Fulfilled response \<and> getData response = Some d
               \<and> mk response (constructor m) (Some d) = Inr wrapper
               \<and> doc_data d = Some (getApiId (self (request_saved mk http call m))))"
      using request_saved_fulfilled [of mk http call m] by blast
    show "\<forall>response d i wrapper.
            http call = Fulfilled response \<and> getData response = Some d \<and> doc_data d = Some i
            \<and> mk response (constructor m) (Some d) = Inr wrapper \<longrightarrow>
            settled (request_saved mk http call m) = Fulfilled wrapper
            \<and> getApiId (self (request_saved mk http call m)) = i"
      using request_saved_fulfils [of http call _ _ _ mk m] by blast
  qed
qed

theorem save_adopts_response_identity_witness:
  "effectiveJsonApiBaseUrl (constructor article_example) = Inr ''http://api.test/v1''
   \<and> effectiveEndpoint (constructor article_example) = Inr ''articles''
   \<and> serialize article_example = Inr article_payload
   \<and> resolves (save wrap_response respond_without_id article_example)
   \<and> identity_after (save wrap_response respond_without_id article_example) = Some IdUndefined
   \<and> serialize unsaved_article = Inr unsaved_payload
   \<and> resolves (create wrap_response (respond_with_id ''42'') unsaved_article)
   \<and> identity_after (create wrap_response (respond_with_id ''42'') unsaved_article)
       = Some (IdString ''42'')"
proof -
  have b1: "effectiveJsonApiBaseUrl (constructor article_example) = Inr ''http://api.test/v1''"
    and e1: "effectiveEndpoint (constructor article_example) = Inr ''articles''"
    by (simp_all add: constructor_article_example base_article_class endpoint_article_class)
  have b2: "effectiveJsonApiBaseUrl (constructor unsaved_article) = Inr ''http://api.test/v1''"
    and e2: "effectiveEndpoint (constructor unsaved_article) = Inr ''articles''"
    by (simp_all add: constructor_unsaved_article base_article_class endpoint_article_class)
  have s: "save = save \<or> save = create" and c: "create = save \<or> create = create"
    by simp_all
  from save_adopts_response_identity
         [OF b1 e1 serialize_article_example s, of wrap_response respond_without_id]
       save_adopts_response_identity
         [OF b2 e2 serialize_unsaved_article c, of wrap_response "respond_with_id ''42''"]
       b1 e1 serialize_article_example serialize_unsaved_article
  show ?thesis
    by (simp add: save_article_example create_unsaved_article saved_defs
          api_id_article_example)
qed

text \<open>
  A rejected promise does not mean an untouched instance: when the transport fails the
  instance is as before, but when constructing the save result throws, the identity of
  the response has already been adopted.
\<close>

lemma save_rejected_by_transport:
  "\<not> resolves (save wrap_response refuse article_example)
   \<and> identity_after (save wrap_response refuse article_example) = Some (IdString ''1'')"
  by (simp add: save_article_example saved_defs api_id_article_example)

lemma save_rejected_after_adoption:
  "\<not> resolves (save failing_wrapper (respond_with_id ''77'') article_example)
   \<and> identity_after (save failing_wrapper (respond_with_id ''77'') article_example)
       = Some (IdString ''77'')"
  by (simp add: save_article_example saved_defs failing_wrapper_def)

section \<open>Relation paths\<close>

text \<open>
  On the relation values of the data model \<open>getRelationsKeys\<close> returns a list, whatever
  the parent name.
\<close>

lemma getRelationsKeys_total_mutual:
  "entities_only m \<longrightarrow> (\<exists>keys. getRelationsKeys p m = Inr keys)"
  "entities_only_relations rels \<longrightarrow> (\<exists>keys. relationsKeys p rels = Inr keys)"
  "entities_only_relation rel \<longrightarrow> (\<exists>keys. relationKeys k rel = Inr keys)"
  "entities_only_array ms \<longrightarrow> (\<exists>keys. forEachKeys k ms = Inr keys)"
proof (induction p m and p rels and k rel and k ms
       rule: getRelationsKeys_relationsKeys_relationKeys_forEachKeys.induct)
qed auto

lemma getRelationsKeys_total:
  "entities_only m \<Longrightarrow> \<exists>keys. getRelationsKeys p m = Inr keys"
  using getRelationsKeys_total_mutual(1) by blast

text \<open>
  Three levels of to-one relations, for any names: the path of the third level is
  qualified by the name of the second level only.
\<close>

lemma getRelationsKeys_three_levels:
  "getRelationsKeys None
     (Model c1 i1 a1 [(k1, RelModel
       (Model c2 i2 a2 [(k2, RelModel
         (Model c3 i3 a3 [(k3, RelModel (Model c4 i4 a4 []))]))]))])
   = Inr [k1, relationName (Some k1) k2, relationName (Some k2) k3]"
  by (simp add: relationName_def)

text \<open>The example of the spec, two levels deep.\<close>

lemma getRelationsKeys_review_example:
  "getRelationsKeys None review_example = Inr [''author'', ''author.books'']"
  by (simp add: sample_defs relationName_def)

text \<open>
  Claim C6 says that \<open>getRelationsKeys\<close> returns every populated relation path, each
  nested path prefixed by the complete chain of relation names from the root. Evaluated
  on the code, for an article whose \<open>author\<close> has \<open>books\<close> (one book) whose
  \<open>publisher\<close> is populated: the path of the third level is returned as
  \<open>books.publisher\<close>, prefixed by the name of the relation just above it and not by the
  chain \<open>author.books\<close> from the root.
\<close>

theorem getRelationsKeys_nested_prefix:
  "getRelationsKeys None chain_example = Inr [''author'', ''author.books'', ''books.publisher'']"
  by (simp add: sample_defs relationName_def)

section \<open>Relation paths on the store\<close>

text \<open>A call that returns within some depth returns the same within any greater depth.\<close>

lemma forEachKeys_with_mono:
  assumes "\<And>p r y. call p r = Some y \<Longrightarrow> call' p r = Some y"
  shows "forEachKeys_with call k rs = Some x \<Longrightarrow> forEachKeys_with call' k rs = Some x"
proof (induction rs arbitrary: x)
  case Nil
  then show ?case by simp
next
  case (Cons r rs)
  show ?case
  proof (cases "call (Some k) r")
    case None
    with Cons.prems show ?thesis by simp
  next
    case (Some y)
    note first = assms [OF Some]
    show ?thesis
    proof (cases y)
      case (Inl err)
      with Cons.prems Some first show ?thesis by auto
    next
      case (Inr nested)
      show ?thesis
      proof (cases "forEachKeys_with call k rs")
        case None
        with Cons.prems Some Inr show ?thesis by simp
      next
        case rest: (Some z)
        from Cons.IH [OF rest] Cons.prems Some Inr first rest show ?thesis by simp
      qed
    qed
  qed
qed

lemma relationKeys_with_mono:
  assumes "\<And>p r y. call p r = Some y \<Longrightarrow> call' p r = Some y"
  shows "relationKeys_with call k rel = Some x \<Longrightarrow> relationKeys_with call' k rel = Some x"
proof (cases rel)
  case (RefModel r)
  assume "relationKeys_with call k rel = Some x"
  with RefModel assms show ?thesis by simp
next
  case (RefArray rs)
  assume "relationKeys_with call k rel = Some x"
  with RefArray forEachKeys_with_mono [of call call' k rs x] assms show ?thesis by simp
next
  case (RefOther v)
  assume "relationKeys_with call k rel = Some x"
  with RefOther show ?thesis by simp
qed

lemma relationsKeys_with_mono:
  assumes "\<And>p r y. call p r = Some y \<Longrightarrow> call' p r = Some y"
  shows "relationsKeys_with call p xs = Some x \<Longrightarrow> relationsKeys_with call' p xs = Some x"
proof (induction xs arbitrary: x)
  case Nil
  then show ?case by simp
next
  case (Cons e xs)
  obtain k rel where e: "e = (k, rel)" by (cases e)
  show ?case
  proof (cases "relationKeys_with call k rel")
    case None
    with Cons.prems e show ?thesis by simp
  next
    case (Some y)
    have first: "relationKeys_with call' k rel = Some y"
      by (rule relationKeys_with_mono [OF assms Some])
    show ?thesis
    proof (cases y)
      case (Inl err)
      with Cons.prems e Some first show ?thesis by auto
    next
      case (Inr nested)
      show ?thesis
      proof (cases "relationsKeys_with call p xs")
        case None
        with Cons.prems e Some Inr show ?thesis by simp
      next
        case rest: (Some z)
        from Cons.IH [OF rest] Cons.prems e Some Inr first rest show ?thesis by simp
      qed
    qed
  qed
qed

lemma getRelationsKeys_at_Suc:
  "getRelationsKeys_at n h p r = Some x \<Longrightarrow> getRelationsKeys_at (Suc n) h p r = Some x"
proof (induction n arbitrary: p r x)
  case 0
  then show ?case by simp
next
  case (Suc n)
  from Suc.prems have "relationsKeys_with (getRelationsKeys_at n h) p (object_relations (h r)) = Some x" by simp
  from relationsKeys_with_mono [of "getRelationsKeys_at n h" "getRelationsKeys_at (Suc n) h", OF Suc.IH this]
  show ?case by simp
qed

lemma getRelationsKeys_at_mono:
  assumes "n \<le> n'" and "getRelationsKeys_at n h p r = Some x"
  shows "getRelationsKeys_at n' h p r = Some x"
  using assms(1)
proof (induction n' rule: dec_induct)
  case base
  show ?case by (rule assms(2))
next
  case (step k)
  then show ?case by (intro getRelationsKeys_at_Suc)
qed

lemma relationsKeys_at_mono:
  assumes "n \<le> n'" and "relationsKeys_with (getRelationsKeys_at n h) p xs = Some x"
  shows "relationsKeys_with (getRelationsKeys_at n' h) p xs = Some x"
  using relationsKeys_with_mono [of "getRelationsKeys_at n h" "getRelationsKeys_at n' h" p xs x] getRelationsKeys_at_mono [OF assms(1)] assms(2)
  by blast

lemma relationKeys_at_mono:
  assumes "n \<le> n'" and "relationKeys_with (getRelationsKeys_at n h) k rel = Some x"
  shows "relationKeys_with (getRelationsKeys_at n' h) k rel = Some x"
  using relationKeys_with_mono [of "getRelationsKeys_at n h" "getRelationsKeys_at n' h" k rel x] getRelationsKeys_at_mono [OF assms(1)] assms(2)
  by blast

lemma forEachKeys_at_mono:
  assumes "n \<le> n'" and "forEachKeys_with (getRelationsKeys_at n h) k rs = Some x"
  shows "forEachKeys_with (getRelationsKeys_at n' h) k rs = Some x"
  using forEachKeys_with_mono [of "getRelationsKeys_at n h" "getRelationsKeys_at n' h" k rs x] getRelationsKeys_at_mono [OF assms(1)] assms(2)
  by blast

text \<open>
  On a store that unfolds to a tree, \<open>getRelationsKeys\<close> returns, and returns what the
  function on trees gives for the unfolding.
\<close>

lemma keys_at_unfolding_mutual:
  "unfolds_to h r m \<Longrightarrow> \<exists>n. getRelationsKeys_at n h p r = Some (getRelationsKeys p m)"
  "relations_unfold_to h xs rels \<Longrightarrow> \<exists>n. relationsKeys_with (getRelationsKeys_at n h) p xs = Some (relationsKeys p rels)"
  "relation_unfolds_to h x rel \<Longrightarrow> \<exists>n. relationKeys_with (getRelationsKeys_at n h) k x = Some (relationKeys k rel)"
  "array_unfolds_to h rs ms \<Longrightarrow> \<exists>n. forEachKeys_with (getRelationsKeys_at n h) k rs = Some (forEachKeys k ms)"
proof (induction p m and p rels and k rel and k ms arbitrary: r and xs and x and rs
       rule: getRelationsKeys_relationsKeys_relationKeys_forEachKeys.induct)
  case (1 p c i attrs rels)
  from "1.prems" have "relations_unfold_to h (object_relations (h r)) rels" by simp
  from "1.IH" [OF this] obtain n where
    "relationsKeys_with (getRelationsKeys_at n h) p (object_relations (h r)) = Some (relationsKeys p rels)" ..
  then have "getRelationsKeys_at (Suc n) h p r = Some (getRelationsKeys p (Model c i attrs rels))"
    by simp
  then show ?case ..
next
  case (2 p)
  then have "relationsKeys_with (getRelationsKeys_at 0 h) p xs = Some (relationsKeys p [])" by simp
  then show ?case ..
next
  case (3 p key relation rest)
  from "3.prems" obtain x xs' where xs: "xs = (key, x) # xs'"
    and x: "relation_unfolds_to h x relation" and xs': "relations_unfold_to h xs' rest"
    by (auto split: list.splits)
  from "3.IH"(1) [OF x] obtain n1 where
    n1: "relationKeys_with (getRelationsKeys_at n1 h) key x = Some (relationKeys key relation)" ..
  show ?case
  proof (cases "relationKeys key relation")
    case (Inl err)
    with n1 xs have "relationsKeys_with (getRelationsKeys_at n1 h) p xs = Some (relationsKeys p ((key, relation) # rest))"
      by simp
    then show ?thesis ..
  next
    case (Inr nested)
    from "3.IH"(2) [OF Inr xs'] obtain n2 where
      n2: "relationsKeys_with (getRelationsKeys_at n2 h) p xs' = Some (relationsKeys p rest)" ..
    from relationKeys_at_mono [OF _ n1, of "max n1 n2"]
    have m1: "relationKeys_with (getRelationsKeys_at (max n1 n2) h) key x = Some (relationKeys key relation)" by simp
    from relationsKeys_at_mono [OF _ n2, of "max n1 n2"]
    have m2: "relationsKeys_with (getRelationsKeys_at (max n1 n2) h) p xs' = Some (relationsKeys p rest)" by simp
    from m1 m2 xs Inr have
      "relationsKeys_with (getRelationsKeys_at (max n1 n2) h) p xs = Some (relationsKeys p ((key, relation) # rest))"
      by (simp split: sum.splits)
    then show ?thesis ..
  qed
next
  case (4 key m)
  from "4.prems" obtain r where x: "x = RefModel r" and r: "unfolds_to h r m"
    by (auto split: reference.splits)
  from "4.IH" [OF r] obtain n where
    "getRelationsKeys_at n h (Some key) r = Some (getRelationsKeys (Some key) m)" ..
  with x have "relationKeys_with (getRelationsKeys_at n h) key x = Some (relationKeys key (RelModel m))" by simp
  then show ?case ..
next
  case (5 key ms)
  from "5.prems" obtain rs where x: "x = RefArray rs" and rs: "array_unfolds_to h rs ms"
    by (auto split: reference.splits)
  from "5.IH" [OF rs] obtain n where
    "forEachKeys_with (getRelationsKeys_at n h) key rs = Some (forEachKeys key ms)" ..
  with x have "relationKeys_with (getRelationsKeys_at n h) key x = Some (relationKeys key (RelArray ms))" by simp
  then show ?case ..
next
  case (6 key v)
  then have "relationKeys_with (getRelationsKeys_at 0 h) key x = Some (relationKeys key (RelOther v))" by simp
  then show ?case ..
next
  case (7 key)
  then have "forEachKeys_with (getRelationsKeys_at 0 h) key rs = Some (forEachKeys key [])" by simp
  then show ?case ..
next
  case (8 key m ms)
  from "8.prems" obtain r rs' where rs: "rs = r # rs'"
    and r: "unfolds_to h r m" and rs': "array_unfolds_to h rs' ms"
    by (auto split: list.splits)
  from "8.IH"(1) [OF r] obtain n1 where
    n1: "getRelationsKeys_at n1 h (Some key) r = Some (getRelationsKeys (Some key) m)" ..
  show ?case
  proof (cases "getRelationsKeys (Some key) m")
    case (Inl err)
    with n1 rs have "forEachKeys_with (getRelationsKeys_at n1 h) key rs = Some (forEachKeys key (m # ms))" by simp
    then show ?thesis ..
  next
    case (Inr nested)
    from "8.IH"(2) [OF Inr rs'] obtain n2 where
      n2: "forEachKeys_with (getRelationsKeys_at n2 h) key rs' = Some (forEachKeys key ms)" ..
    from getRelationsKeys_at_mono [OF _ n1, of "max n1 n2"]
    have m1: "getRelationsKeys_at (max n1 n2) h (Some key) r = Some (getRelationsKeys (Some key) m)"
      by simp
    from forEachKeys_at_mono [OF _ n2, of "max n1 n2"]
    have m2: "forEachKeys_with (getRelationsKeys_at (max n1 n2) h) key rs' = Some (forEachKeys key ms)" by simp
    from m1 m2 rs Inr have
      "forEachKeys_with (getRelationsKeys_at (max n1 n2) h) key rs = Some (forEachKeys key (m # ms))"
      by (simp split: sum.splits)
    then show ?thesis ..
  qed
qed

lemma getRelationsKeys_at_unfolding:
  assumes "unfolds_to h r m"
  shows "\<exists>n. \<forall>n' \<ge> n. getRelationsKeys_at n' h p r = Some (getRelationsKeys p m)"
proof -
  from keys_at_unfolding_mutual(1) [OF assms] obtain n where
    "getRelationsKeys_at n h p r = Some (getRelationsKeys p m)" ..
  then have "\<forall>n' \<ge> n. getRelationsKeys_at n' h p r = Some (getRelationsKeys p m)"
    by (auto intro: getRelationsKeys_at_mono)
  then show ?thesis ..
qed

text \<open>The store of the spec's example unfolds to the tree of that example.\<close>

lemma review_store_unfolds: "unfolds_to review_store 0 review_example"
  by (simp add: review_store_def review_example_def plain_author_def plain_book_def)

lemma getRelationsKeys_at_review_store:
  "getRelationsKeys_at 3 review_store None 0 = Some (Inr [''author'', ''author.books''])"
  by (simp add: numeral_3_eq_3 review_store_def relationName_def)

text \<open>
  On the circular store the recursion is cut off at every depth, from the post, from the
  fetched comment and from the new comment.
\<close>

lemma getRelationsKeys_at_circular:
  "getRelationsKeys_at n circular_store p 1 = None
   \<and> getRelationsKeys_at n circular_store p 2 = None"
proof (induction n arbitrary: p)
  case 0
  show ?case by simp
next
  case (Suc n)
  then show ?case by (simp add: circular_store_def)
qed

lemma getRelationsKeys_at_new_comment:
  "getRelationsKeys_at n circular_store None 0 = None"
proof (cases n)
  case 0
  then show ?thesis by simp
next
  case (Suc k)
  with getRelationsKeys_at_circular [of k "Some ''post''"] show ?thesis
    by (simp add: circular_store_def)
qed

section \<open>Date attributes\<close>

text \<open>
  For a date attribute both accessors throw exactly when \<open>Date.parse\<close> gives \<open>NaN\<close> or
  zero; a value written is stored as the formatter returns it.
\<close>

lemma setAttribute_date_throws:
  assumes "isDateAttribute (constructor m) attributeName"
  shows "setAttribute h attributeName v m = Inl CannotCastToDate
           \<longleftrightarrow> Date_parse h v = NaN \<or> Date_parse h v = Number 0"
  using assms by (simp add: setAttribute_def not_number_def)

lemma getAttribute_date_throws:
  assumes "isDateAttribute (constructor m) attributeName"
  shows "getAttribute h attributeName m = Inl CannotCastToDate
           \<longleftrightarrow> Date_parse h (attributes_get m attributeName) = NaN
               \<or> Date_parse h (attributes_get m attributeName) = Number 0"
  using assms by (simp add: getAttribute_def getAttributeAsDate_def not_number_def)

lemma setAttribute_date_stores:
  assumes "isDateAttribute (constructor m) attributeName"
    and "setAttribute h attributeName v m = Inr m'"
  shows "\<exists>fmt. map_of (dates (constructor m)) attributeName = Some fmt
           \<and> attributes_get m' attributeName = parseDate h v fmt"
  using assms
  by (auto simp: setAttribute_def isDateAttribute_def attributes_get_def Map_get_set
           split: if_splits)

text \<open>A date after the epoch is written and read back as a date.\<close>

lemma setAttribute_sample_date:
  "map_sum id (\<lambda>m. getAttribute sample_host ''publishedAt'' m)
     (setAttribute sample_host ''publishedAt'' (Str ''2020-01-01T00:00:00.000Z'') article_example)
   = Inr (Inr (DateObj 1577836800000))"
  by (simp add: setAttribute_def getAttribute_def getAttributeAsDate_def not_number_def
        isDateAttribute_def sample_host_def attributes_get_def Map_get_def sample_defs)

text \<open>
  Claim C7 says that writing a date attribute throws exactly when the value is not
  parseable as a date. Evaluated on the code: \<open>publishedAt\<close> is a date attribute of the
  article class and the epoch is a date (\<open>Date.parse\<close> gives its time value, 0), yet
  writing it throws the error that the value cannot be cast to a date, because
  \<open>!Date.parse(value)\<close> is true for zero.
\<close>

theorem setAttribute_rejects_epoch:
  "isDateAttribute (constructor article_example) ''publishedAt''
   \<and> Date_parse epoch_host (Str ''1970-01-01T00:00:00.000Z'') = Number 0
   \<and> setAttribute epoch_host ''publishedAt'' (Str ''1970-01-01T00:00:00.000Z'') article_example
       = Inl CannotCastToDate"
  by (simp add: setAttribute_def not_number_def isDateAttribute_def epoch_host_def
        constructor_article_example article_class_def entity_class_def)

section \<open>Deleting\<close>

text \<open>
  Claim C8. An instance that is not persisted cannot be deleted: \<open>delete\<close> throws before
  any transport call. For a persisted instance of a class whose URL resolves, \<open>delete\<close>
  makes exactly one DELETE call to \<open><base>/<endpoint>/<id>\<close>, and its promise is
  fulfilled with no value when the transport's is (and rejected with the same error
  otherwise).
\<close>

theorem delete_precondition_and_request:
  "(\<not> hasId m \<longrightarrow> delete http m = Inl CannotDeleteWithoutId \<and> requests (delete http m) = [])
   \<and> (hasId m \<and> effectiveJsonApiBaseUrl (constructor m) = Inr base
        \<and> effectiveEndpoint (constructor m) = Inr ep \<longrightarrow>
        (\<exists>s. s \<noteq> '''' \<and> api_id m = IdString s
           \<and> delete http m =
               Inr \<lparr>calls = [HttpDelete (base @ ''/'' @ ep @ ''/'' @ s)],
                    settled = (case http (HttpDelete (base @ ''/'' @ ep @ ''/'' @ s)) of
                                 Fulfilled response \<Rightarrow> Fulfilled ()
                               | Rejected err \<Rightarrow> Rejected err),
                    self = m\<rparr>))"
  by (auto simp: delete_def requests_def hasId_iff Let_def getJsonApiUrl_parts)

theorem delete_precondition_and_request_witness:
  "\<not> hasId unsaved_article
   \<and> delete refuse unsaved_article = Inl CannotDeleteWithoutId
   \<and> requests (delete refuse unsaved_article) = []
   \<and> hasId article_example
   \<and> effectiveJsonApiBaseUrl (constructor article_example) = Inr ''http://api.test/v1''
   \<and> effectiveEndpoint (constructor article_example) = Inr ''articles''
   \<and> delete (respond_with_id ''1'') article_example =
       Inr \<lparr>calls = [HttpDelete ''http://api.test/v1/articles/1''],
            settled = Fulfilled (), self = article_example\<rparr>"
proof -
  have b: "effectiveJsonApiBaseUrl (constructor article_example) = Inr ''http://api.test/v1''"
    and e: "effectiveEndpoint (constructor article_example) = Inr ''articles''"
    by (simp_all add: constructor_article_example base_article_class endpoint_article_class)
  from delete_precondition_and_request [of unsaved_article refuse "''''" "''''"]
       delete_precondition_and_request
         [of article_example "respond_with_id ''1''" "''http://api.test/v1''" "''articles''"]
       b e api_id_article_example hasId_article_example not_hasId_unsaved_article
  show ?thesis by (auto simp: respond_with_id_def)
qed

text \<open>
  Claim C10. A \<open>delete\<close> that made its call leaves the instance as it was: the same
  identity, attributes and relations, so that the instance still has an identity and
  \<open>getApiId\<close> still returns it.
\<close>

theorem delete_keeps_instance:
  assumes "delete http m = Inr e"
  shows "self e = m \<and> hasId (self e) \<and> getApiId (self e) = getApiId m
         \<and> attributes (self e) = attributes m \<and> relations (self e) = relations m"
  using assms
  by (auto simp: delete_def Let_def split: if_splits sum.splits)

theorem delete_keeps_instance_witness:
  "delete (respond_with_id ''1'') article_example =
     Inr \<lparr>calls = [HttpDelete ''http://api.test/v1/articles/1''],
          settled = Fulfilled (), self = article_example\<rparr>
   \<and> hasId article_example
   \<and> getApiId article_example = IdString ''1''
   \<and> identity_after (delete (respond_with_id ''1'') article_example) = Some (IdString ''1'')"
  using delete_keeps_instance [OF delete_article_example] delete_article_example
        hasId_article_example
  by (simp add: identity_after_def getApiId_def api_id_article_example)

section \<open>Re-fetching\<close>

text \<open>
  What \<open>fresh\<close> does when \<open>getRelationsKeys\<close> returns: on a tree whose relation values are
  those of the data model the relation paths are computed, and then, without an identity,
  \<open>fresh\<close> makes no transport call and its promise is fulfilled with \<open>undefined\<close>, which is
  not the \<open>null\<close> of a lookup that finds nothing; with an identity (and the URL of the
  class resolved) it makes one read of \<open><base>/<endpoint>/<id>\<close> that asks for exactly the
  paths \<open>getRelationsKeys\<close> returned, and its promise is fulfilled with the instance
  found, or with \<open>null\<close>.
\<close>

lemma fresh_on_tree:
  assumes "entities_only m"
  shows "\<exists>keys. getRelationsKeys None m = Inr keys
       \<and> (\<not> hasId m \<longrightarrow>
            fresh assemble http m =
              Inr \<lparr>calls = [], settled = Fulfilled FreshUndefined, self = m\<rparr>)
       \<and> FreshUndefined \<noteq> FreshNull
       \<and> (hasId m \<and> effectiveJsonApiBaseUrl (constructor m) = Inr base
            \<and> effectiveEndpoint (constructor m) = Inr ep \<longrightarrow>
            (\<exists>s paths. s \<noteq> '''' \<and> api_id m = IdString s \<and> set paths = set keys
               \<and> fresh assemble http m =
                   Inr \<lparr>calls = [HttpGet (base @ ''/'' @ ep @ ''/'' @ s) paths],
                        settled = (case http (HttpGet (base @ ''/'' @ ep @ ''/'' @ s) paths) of
                                     Fulfilled response \<Rightarrow>
                                       Fulfilled (case assemble response of
                                                    None \<Rightarrow> FreshNull
                                                  | Some x \<Rightarrow> FreshModel x)
                                   | Rejected err \<Rightarrow> Rejected err),
                        self = m\<rparr>))"
proof -
  from getRelationsKeys_total [OF assms] obtain keys where
    keys: "getRelationsKeys None m = Inr keys" by blast
  have none: "fresh assemble http m =
      Inr \<lparr>calls = [], settled = Fulfilled FreshUndefined, self = m\<rparr>" if "\<not> hasId m"
  proof -
    from that have "\<not> truthy_id (getApiId m)"
      by (cases "api_id m") (auto simp: hasId_def getApiId_def)
    with keys show ?thesis by (simp add: fresh_def Let_def)
  qed
  have some: "\<exists>s paths. s \<noteq> '''' \<and> api_id m = IdString s \<and> set paths = set keys
               \<and> fresh assemble http m =
                   Inr \<lparr>calls = [HttpGet (base @ ''/'' @ ep @ ''/'' @ s) paths],
                        settled = (case http (HttpGet (base @ ''/'' @ ep @ ''/'' @ s) paths) of
                                     Fulfilled response \<Rightarrow>
                                       Fulfilled (case assemble response of
                                                    None \<Rightarrow> FreshNull
                                                  | Some x \<Rightarrow> FreshModel x)
                                   | Rejected err \<Rightarrow> Rejected err),
                        self = m\<rparr>"
    if h: "hasId m \<and> effectiveJsonApiBaseUrl (constructor m) = Inr base
            \<and> effectiveEndpoint (constructor m) = Inr ep"
  proof -
    from h obtain s where s: "s \<noteq> ''''" "api_id m = IdString s" by (auto simp: hasId_iff)
    from h have url: "getJsonApiUrl (constructor m) = Inr (base @ ''/'' @ ep)"
      by (simp add: getJsonApiUrl_parts)
    from keys url s have "fresh assemble http m =
        Inr \<lparr>calls = [HttpGet (base @ ''/'' @ ep @ ''/'' @ s) keys],
             settled = (case http (HttpGet (base @ ''/'' @ ep @ ''/'' @ s) keys) of
                          Fulfilled response \<Rightarrow>
                            Fulfilled (case assemble response of
                                         None \<Rightarrow> FreshNull
                                       | Some x \<Rightarrow> FreshModel x)
                        | Rejected err \<Rightarrow> Rejected err),
             self = m\<rparr>"
      by (simp add: fresh_def Let_def getApiId_def Builder_find_def Builder_with_def query_def
            new_model_def split: promise.splits)
    with s show ?thesis by blast
  qed
  from keys none some show ?thesis by simp
qed

lemma fresh_article_example:
  "fresh assemble_nothing (respond_with_id ''1'') article_example =
     Inr \<lparr>calls = [HttpGet ''http://api.test/v1/articles/1''
                     [''author'', ''author.books'', ''books.publisher'', ''tags'',
                      ''drafts'', ''editor'']],
          settled = Fulfilled FreshNull, self = article_example\<rparr>"
  using getJsonApiUrl_article_class api_id_article_example getRelationsKeys_article_example
  by (simp add: fresh_def Let_def getApiId_def Builder_find_def Builder_with_def query_def
        new_model_def respond_with_id_def assemble_nothing_def constructor_article_example)

lemma fresh_unsaved_article:
  "fresh assemble http unsaved_article =
     Inr \<lparr>calls = [], settled = Fulfilled FreshUndefined, self = unsaved_article\<rparr>"
  using fresh_on_tree [OF entities_only_unsaved_article] not_hasId_unsaved_article
  by blast

text \<open>
  On a store that unfolds to a tree, \<open>fresh\<close> returns at every depth that lets
  \<open>getRelationsKeys\<close> return, with the calls and the outcome of \<open>fresh\<close> on the tree.
\<close>

lemma fresh_at_unfolding:
  assumes "unfolds_to h r m"
  shows "\<exists>n. \<forall>n' \<ge> n. fresh_at n' assemble http h r =
           Some (map_sum id (\<lambda>e. (calls e, settled e)) (fresh assemble http m))"
proof -
  from getRelationsKeys_at_unfolding [OF assms, of None] obtain n where
    n: "\<forall>n' \<ge> n. getRelationsKeys_at n' h None r = Some (getRelationsKeys None m)" ..
  from assms have c: "object_constructor (h r) = constructor m"
    and i: "object_id (h r) = api_id m"
    by (cases m; simp)+
  have "fresh_at n' assemble http h r =
          Some (map_sum id (\<lambda>e. (calls e, settled e)) (fresh assemble http m))" if "n' \<ge> n" for n'
  proof -
    from n that have "getRelationsKeys_at n' h None r = Some (getRelationsKeys None m)" by simp
    then show ?thesis
      by (simp add: fresh_at_def fresh_def c i getApiId_def Let_def new_model_def
            split: sum.splits prod.splits)
  qed
  then show ?thesis by blast
qed

text \<open>
  Claim C9 says that \<open>fresh\<close> on an instance with no identity makes no transport call and
  resolves to \<open>undefined\<close>, and on a persisted instance re-fetches it with the paths of
  \<open>getRelationsKeys\<close>. Evaluated on the code, which computes the paths before it looks at
  the identity. On the circular store, whatever depth of calls is allowed, \<open>fresh\<close> on
  the new comment (no identity) is cut off inside \<open>getRelationsKeys\<close>, and so is \<open>fresh\<close> on
  the fetched post (identity \<open>1\<close>): neither call returns. On the unsaved article whose
  relation \<open>editor\<close> holds a string, \<open>fresh\<close> throws.
\<close>

theorem fresh_without_identity_fails:
  "object_id (circular_store 0) = IdUndefined
   \<and> fresh_at n assemble http circular_store 0 = None
   \<and> object_id (circular_store 1) = IdString ''1''
   \<and> fresh_at n assemble http circular_store 1 = None
   \<and> \<not> hasId mislabelled_article
   \<and> fresh assemble http mislabelled_article = Inl TypeError"
  using getRelationsKeys_at_new_comment [of n] getRelationsKeys_at_circular [of n None]
  by (simp add: fresh_at_def fresh_def circular_store_def mislabelled_article_def hasId_def)

end
